theory Spec2Isabelle
  imports Complex_Main "HOL-Library.List_Lexorder" "HOL-Library.Char_ord" "HOL-Library.Multiset"
begin

section \<open>Values, errors and data frames\<close>

text \<open>
  A cell of a data frame: a string (object column), a number (integer and float columns,
  floats idealised as reals), a date (a day number) or the missing value (NaN / NaT).
\<close>

datatype val = Num real | Day int | Str string | NaN

text \<open>
  The order used by sorting: numbers, dates and strings by their own order, the missing
  value last (pandas sorts with \<open>na_position = last\<close>). Columns are homogeneous in the
  program; the order between different kinds only makes the order total.
\<close>

instantiation val :: linorder
begin

fun less_eq_val :: "val \<Rightarrow> val \<Rightarrow> bool" where
  "less_eq_val (Num a) (Num b) = (a \<le> b)"
| "less_eq_val (Num a) _ = True"
| "less_eq_val (Day a) (Num b) = False"
| "less_eq_val (Day a) (Day b) = (a \<le> b)"
| "less_eq_val (Day a) _ = True"
| "less_eq_val (Str a) (Num b) = False"
| "less_eq_val (Str a) (Day b) = False"
| "less_eq_val (Str a) (Str b) = (a \<le> b)"
| "less_eq_val (Str a) NaN = True"
| "less_eq_val NaN NaN = True"
| "less_eq_val NaN _ = False"

definition less_val :: "val \<Rightarrow> val \<Rightarrow> bool" where
  "less_val x y = (x \<le> y \<and> \<not> y \<le> x)"

instance
proof
  fix x y z :: val
  show "(x < y) = (x \<le> y \<and> \<not> y \<le> x)" by (simp add: less_val_def)
  show "x \<le> x" by (cases x) auto
  show "x \<le> y \<Longrightarrow> y \<le> z \<Longrightarrow> x \<le> z"
    by (cases x; cases y; cases z) auto
  show "x \<le> y \<Longrightarrow> y \<le> x \<Longrightarrow> x = y"
    by (cases x; cases y) auto
  show "x \<le> y \<or> y \<le> x"
    by (cases x; cases y) auto
qed

end

datatype error = AssertionError | KeyError | ValueError | TypeError

type_synonym row = "string \<Rightarrow> val"

record frame =
  cols :: "string list"
  rws :: "row list"

text \<open>\<open>df[c]\<close>: the values of a column, KeyError when the frame has no such column.\<close>

definition column :: "string \<Rightarrow> frame \<Rightarrow> error + val list" where
  "column c df = (if c \<in> set (cols df) then Inr (map (\<lambda>r. r c) (rws df)) else Inl KeyError)"

text \<open>\<open>x == y\<close> on cells: a missing value is equal to nothing, itself included.\<close>

definition cell_eq :: "val \<Rightarrow> val \<Rightarrow> bool" where
  "cell_eq x y = (x \<noteq> NaN \<and> x = y)"

text \<open>\<open>fillna(0)\<close> on one cell.\<close>

definition fillna0 :: "val \<Rightarrow> val" where
  "fillna0 v = (if v = NaN then Num 0 else v)"

subsection \<open>Python helpers\<close>

text \<open>\<open>range(a, b)\<close> and the slice \<open>xs[:n]\<close> (a negative \<open>n\<close> counts from the end).\<close>

definition py_range :: "int \<Rightarrow> int \<Rightarrow> int list" where
  "py_range a b = [a..b - 1]"

definition py_prefix :: "int \<Rightarrow> 'a list \<Rightarrow> 'a list" where
  "py_prefix n xs = (if 0 \<le> n then take (nat n) xs else take (length xs - nat (- n)) xs)"

text \<open>\<open>str(i)\<close> of an integer, as an f-string formats it.\<close>

definition digit_char :: "nat \<Rightarrow> char" where
  "digit_char d = ''0123456789'' ! d"

function str_nat :: "nat \<Rightarrow> string" where
  "str_nat n = (if n < 10 then [digit_char n] else str_nat (n div 10) @ [digit_char (n mod 10)])"
  by pat_completeness auto
termination
  by (relation "measure id") auto

declare str_nat.simps [simp del]

definition str_int :: "int \<Rightarrow> string" where
  "str_int i = (if i < 0 then CHR ''-'' # str_nat (nat (- i)) else str_nat (nat i))"

section \<open>Horizon predictor (model.py, HierarchicalLGBM.predict)\<close>

text \<open>
  A trained booster is used only through \<open>predict\<close>, one raw score per feature row.
  The forecast matrix is a frame indexed by series id: its index, its column labels and
  its cells, row by row (\<open>None\<close> is a missing cell).
\<close>

type_synonym booster = "val list \<Rightarrow> real"

type_synonym params = "(string \<times> val) list"

record lgbm =
  params :: params
  num_boost_round :: nat
  num_models :: int
  models :: "int \<Rightarrow> booster option"

record fmatrix =
  f_index :: "val list"
  f_columns :: "string list"
  f_values :: "real option list list"

text \<open>\<open>Xtest[feature_names]\<close>: the feature cells of each row, KeyError on a missing column.\<close>

definition select_values :: "string list \<Rightarrow> string list \<Rightarrow> row list \<Rightarrow> error + val list list" where
  "select_values cs names rs =
     (if set names \<subseteq> set cs then Inr (map (\<lambda>r. map r names) rs) else Inl KeyError)"

text \<open>Lines 114 and 118: the horizons \<open>1..H\<close> zipped with the first \<open>H\<close> sorted test days.\<close>

definition horizon_days :: "int \<Rightarrow> val list \<Rightarrow> (int \<times> val) list" where
  "horizon_days H test_days = zip (py_range 1 (H + 1)) (py_prefix H test_days)"

text \<open>
  The loop of lines 118 to 128: for each horizon and its day, the rows of that day, their
  features with missing cells filled by 0, the booster's scores clipped below at 0, and
  one triple (id, h, forecast) per row.
\<close>

fun predict_days :: "lgbm \<Rightarrow> frame \<Rightarrow> string list \<Rightarrow> (int \<times> val) list
    \<Rightarrow> error + (val \<times> int \<times> real) list list" where
  "predict_days self test_df feature_names [] = Inr []"
| "predict_days self test_df feature_names ((h, day) # rest) =
     (let Xtest = filter (\<lambda>r. cell_eq (r ''date'') day) (rws test_df) in
      case select_values (cols test_df) feature_names Xtest of
        Inl e \<Rightarrow> Inl e
      | Inr Xsel \<Rightarrow>
          let Xmat = map (map fillna0) Xsel in
          (case models self h of
             None \<Rightarrow> Inl KeyError
           | Some m \<Rightarrow>
               let pred = map m Xmat in
               if ''id'' \<notin> set (cols test_df) then Inl KeyError
               else
                 let out = map2 (\<lambda>r p. (r ''id'', h, max 0 p)) Xtest pred in
                 (case predict_days self test_df feature_names rest of
                    Inl e \<Rightarrow> Inl e
                  | Inr outs \<Rightarrow> Inr (out # outs))))"

text \<open>
  \<open>pivot(index = id, columns = h, values = forecast)\<close>: ValueError on a duplicate
  (id, h) pair; the index and the columns are the sorted distinct ids and horizons; a
  cell with no triple is missing.
\<close>

definition pivot :: "(val \<times> int \<times> real) list \<Rightarrow> error + (val list \<times> int list \<times> real option list list)" where
  "pivot triples =
     (if \<not> distinct (map (\<lambda>(i, h, v). (i, h)) triples) then Inl ValueError
      else
        let idx = sort (remdups (map fst triples));
            hs = sort (remdups (map (\<lambda>(i, h, v). h) triples))
        in Inr (idx, hs,
             map (\<lambda>i. map (\<lambda>h. map_option (\<lambda>(i, h, v). v)
                                   (find (\<lambda>(i', h', v). i' = i \<and> h' = h) triples)) hs) idx))"

text \<open>
  \<open>reindex(ids)\<close> on rows: one row per requested id, in the requested order; the row of the
  id where the index has it, a row of missing cells otherwise. pandas refuses to reindex
  an index with duplicate labels.
\<close>

definition reindex :: "val list \<Rightarrow> val list \<Rightarrow> nat \<Rightarrow> real option list list
    \<Rightarrow> error + real option list list" where
  "reindex ids idx ncols vals =
     (if \<not> distinct idx then Inl ValueError
      else Inr (map (\<lambda>i. case map_of (zip idx vals) i of
                            None \<Rightarrow> replicate ncols None
                          | Some r \<Rightarrow> r) ids))"

definition fill0 :: "real option \<Rightarrow> real option" where
  "fill0 c = (case c of None \<Rightarrow> Some 0 | Some x \<Rightarrow> Some x)"

text \<open>
  \<open>predict\<close>. The canonical ids are the id column of the raw sales table, which the source
  reads from disk; they are a parameter here.
\<close>

definition predict :: "lgbm \<Rightarrow> val list \<Rightarrow> frame \<Rightarrow> string list \<Rightarrow> error + fmatrix" where
  "predict self sales_ids test_df feature_names =
     (case column ''date'' test_df of
        Inl e \<Rightarrow> Inl e
      | Inr dates \<Rightarrow>
          let test_days = sort (remdups dates) in
          if \<not> (num_models self \<le> int (length test_days)) then Inl AssertionError
          else
            (case predict_days self test_df feature_names
                    (horizon_days (num_models self) test_days) of
               Inl e \<Rightarrow> Inl e
             | Inr pred_list \<Rightarrow>
                 if pred_list = [] then Inl ValueError
                 else
                   (case pivot (concat pred_list) of
                      Inl e \<Rightarrow> Inl e
                    | Inr (idx, hs, vals) \<Rightarrow>
                        (case reindex sales_ids idx (length hs) vals of
                           Inl e \<Rightarrow> Inl e
                         | Inr vals' \<Rightarrow>
                             let names = map (\<lambda>i. ''F'' @ str_int i)
                                           (py_range 1 (num_models self + 1)) in
                             if length names \<noteq> length hs then Inl ValueError
                             else Inr \<lparr>f_index = sales_ids, f_columns = names,
                                       f_values = map (map fill0) vals'\<rparr>))))"

section \<open>Hierarchical evaluator (evaluation.py, M5Evaluator.evaluate)\<close>

record evaluator =
  sales_ids :: "val list"

text \<open>
  The score function \<open>wrmsse\<close> is an external package; it is a parameter, applied to the
  array of the reindexed and zero-filled forecast.
\<close>

definition evaluate :: "(real list list \<Rightarrow> real) \<Rightarrow> evaluator \<Rightarrow> fmatrix \<Rightarrow> error + real" where
  "evaluate wrmsse self forecast_df =
     (case reindex (sales_ids self) (f_index forecast_df) (length (f_columns forecast_df))
             (f_values forecast_df) of
        Inl e \<Rightarrow> Inl e
      | Inr vals \<Rightarrow> Inr (wrmsse (map (map (\<lambda>c. the (fill0 c))) vals)))"

section \<open>The data-frame operations the program uses\<close>

text \<open>
  The pandas operations called by the source, on frames as values. Each returns a new
  frame; the only in-place operation of the source, the column assignment
  \<open>df[c] = values\<close>, is \<open>set_col\<close>, and the functions that model methods of the repository
  say where they apply it to a shared object.
\<close>

definition is_num :: "val \<Rightarrow> bool" where
  "is_num v = (case v of Num x \<Rightarrow> True | _ \<Rightarrow> False)"

definition num_of :: "val \<Rightarrow> real" where
  "num_of v = (case v of Num x \<Rightarrow> x | _ \<Rightarrow> 0)"

definition numeric_col :: "val list \<Rightarrow> bool" where
  "numeric_col vs = list_all (\<lambda>v. is_num v \<or> v = NaN) vs"

text \<open>\<open>df[c] = vs\<close>: replaces the column where it exists, appends it otherwise.\<close>

definition set_col :: "string \<Rightarrow> val list \<Rightarrow> frame \<Rightarrow> frame" where
  "set_col c vs df =
     \<lparr>cols = (if c \<in> set (cols df) then cols df else cols df @ [c]),
      rws = map2 (\<lambda>r v. r(c := v)) (rws df) vs\<rparr>"

text \<open>\<open>df[names]\<close>: the listed columns in the listed order, KeyError on a missing one.\<close>

definition select :: "string list \<Rightarrow> frame \<Rightarrow> error + frame" where
  "select names df =
     (if set names \<subseteq> set (cols df) then Inr (df\<lparr>cols := names\<rparr>) else Inl KeyError)"

text \<open>
  \<open>df.sort_values(by)\<close> with several keys: a stable lexicographic sort of the rows, missing
  values last.
\<close>

definition sort_values :: "string list \<Rightarrow> frame \<Rightarrow> error + frame" where
  "sort_values by df =
     (if set by \<subseteq> set (cols df) then Inr (df\<lparr>rws := sort_key (\<lambda>r. map r by) (rws df)\<rparr>)
      else Inl KeyError)"


text \<open>
  \<open>groupby(by, sort = False)[c].shift(k)\<close>, given the key of every row and the values of
  the column: row \<open>i\<close> gets the value of the row that stands \<open>k\<close> places before it among
  the rows with the same key (taken in row order), and the missing value when there is no
  such row. A row with a missing key belongs to no group.
\<close>

definition group_shift :: "int \<Rightarrow> val list list \<Rightarrow> val list \<Rightarrow> val list" where
  "group_shift k ks vs =
     map (\<lambda>i. if NaN \<in> set (ks ! i) then NaN
               else
                 let ms = filter (\<lambda>j. ks ! j = ks ! i) [0..<length ks];
                     p = int (length (filter (\<lambda>j. j < i) ms)) - k
                 in if 0 \<le> p \<and> p < int (length ms) then vs ! (ms ! nat p) else NaN)
         [0..<length ks]"

text \<open>
  \<open>s.rolling(w).mean()\<close> on a whole column: the mean of the \<open>w\<close> cells ending at the row,
  missing unless all \<open>w\<close> of them exist and are numbers (\<open>min_periods\<close> is \<open>w\<close>). A
  negative window is refused, and so is a column that is not numeric.
\<close>

definition rolling_mean :: "int \<Rightarrow> val list \<Rightarrow> error + val list" where
  "rolling_mean w vs =
     (if w < 0 then Inl ValueError
      else if \<not> numeric_col vs then Inl TypeError
      else Inr (map (\<lambda>i. if w = 0 \<or> int i + 1 < w then NaN
                          else
                            let win = take (nat w) (drop (i + 1 - nat w) vs)
                            in if list_all is_num win
                               then Num (sum_list (map num_of win) / real (nat w))
                               else NaN)
                    [0..<length vs]))"

text \<open>The mean of the numbers of a group, missing when the group has none.\<close>

definition mean_val :: "val list \<Rightarrow> val" where
  "mean_val vs =
     (let xs = filter is_num vs
      in if xs = [] then NaN else Num (sum_list (map num_of xs) / real (length xs)))"

text \<open>
  \<open>df.groupby(by, as_index = False)[c].mean()\<close>: one row per distinct key with no missing
  part, the keys sorted, with the key columns and the mean of \<open>c\<close>.
\<close>

definition groupby_mean :: "string list \<Rightarrow> string \<Rightarrow> frame \<Rightarrow> error + frame" where
  "groupby_mean by c df =
     (if \<not> set (c # by) \<subseteq> set (cols df) then Inl KeyError
      else if by = [] \<or> \<not> distinct (c # by) then Inl ValueError
      else if \<not> numeric_col (map (\<lambda>r. r c) (rws df)) then Inl TypeError
      else
        let rs = filter (\<lambda>r. NaN \<notin> set (map r by)) (rws df);
            ks = sort (remdups (map (\<lambda>r. map r by) rs))
        in Inr \<lparr>cols = by @ [c],
                 rws = map (\<lambda>k. (\<lambda>n. case map_of (zip by k) n of Some v \<Rightarrow> v | None \<Rightarrow> NaN)
                                  (c := mean_val (map (\<lambda>r. r c) (filter (\<lambda>r. map r by = k) rs))))
                           ks\<rparr>)"

text \<open>\<open>df.rename(columns = {old: new})\<close>, for a new name the frame does not have yet.\<close>

definition rename_col :: "string \<Rightarrow> string \<Rightarrow> frame \<Rightarrow> error + frame" where
  "rename_col old new df =
     (if new \<in> set (cols df) \<and> new \<noteq> old then Inl ValueError
      else Inr \<lparr>cols = map (\<lambda>c. if c = old then new else c) (cols df),
                 rws = map (\<lambda>r. if old \<in> set (cols df) then r(new := r old) else r) (rws df)\<rparr>)"

text \<open>
  \<open>left.merge(right, on = keys, how = "left")\<close>. A key label that is not unique in the
  right frame is refused. Columns that both frames have besides the keys get the suffixes
  \<open>_x\<close> and \<open>_y\<close>, and a clash of the resulting labels is refused. The rows of the left
  frame keep their order; each is paired with every right row of the same key, or with
  missing values when there is none.
\<close>

definition merge_left :: "frame \<Rightarrow> frame \<Rightarrow> string list \<Rightarrow> error + frame" where
  "merge_left left right keys =
     (if \<not> set keys \<subseteq> set (cols left) \<or> \<not> set keys \<subseteq> set (cols right) then Inl KeyError
      else if \<not> distinct (cols right) then Inl ValueError
      else
        let rcols = filter (\<lambda>c. c \<notin> set keys) (cols right);
            shared = filter (\<lambda>c. c \<in> set rcols) (cols left);
            lname = (\<lambda>c. if c \<in> set shared then c @ ''_x'' else c);
            rname = (\<lambda>c. if c \<in> set shared then c @ ''_y'' else c);
            names = map lname (cols left) @ map rname rcols;
            join = (\<lambda>l r. fold (\<lambda>c row. row(rname c := r c)) rcols
                            (fold (\<lambda>c row. row(lname c := l c)) (cols left) (\<lambda>n. NaN)))
        in if \<not> distinct names then Inl ValueError
           else Inr \<lparr>cols = names,
                      rws = concat (map (\<lambda>l.
                              let ms = filter (\<lambda>r. map r keys = map l keys) (rws right)
                              in if ms = [] then [join l (\<lambda>n. NaN)] else map (join l) ms)
                            (rws left))\<rparr>)"

text \<open>
  \<open>df.melt(id_vars, var_name, value_name)\<close>: for every other column, in column order, one
  row per row of the frame, with the column's label and the cell.
\<close>

definition melt :: "string list \<Rightarrow> string \<Rightarrow> string \<Rightarrow> frame \<Rightarrow> error + frame" where
  "melt id_vars var_name value_name df =
     (if \<not> set id_vars \<subseteq> set (cols df) then Inl KeyError
      else
        let value_vars = filter (\<lambda>c. c \<notin> set id_vars) (cols df)
        in Inr \<lparr>cols = id_vars @ [var_name, value_name],
                 rws = concat (map (\<lambda>c. map (\<lambda>r. (\<lambda>n. if n \<in> set id_vars then r n else NaN)
                                                   (var_name := Str c, value_name := r c))
                                              (rws df))
                                 value_vars)\<rparr>)"

text \<open>
  \<open>pd.factorize(values)[0]\<close>: the position of each value among the distinct values in
  order of first appearance, and \<open>-1\<close> for a missing value.
\<close>

fun first_seen :: "val list \<Rightarrow> val list \<Rightarrow> val list" where
  "first_seen seen [] = rev seen"
| "first_seen seen (v # vs) =
     (if v = NaN \<or> v \<in> set seen then first_seen seen vs else first_seen (v # seen) vs)"

fun index_of :: "'a \<Rightarrow> 'a list \<Rightarrow> nat" where
  "index_of x [] = 0"
| "index_of x (y # ys) = (if x = y then 0 else Suc (index_of x ys))"

definition factorize :: "val list \<Rightarrow> val list" where
  "factorize vs =
     (let uniques = first_seen [] vs
      in map (\<lambda>v. if v = NaN then Num (- 1) else Num (real (index_of v uniques))) vs)"

text \<open>Dates: \<open>pd.to_datetime\<close> of a cell, a date minus a number of days, and comparison.\<close>

definition to_datetime :: "val \<Rightarrow> error + val" where
  "to_datetime v = (case v of Day d \<Rightarrow> Inr (Day d) | NaN \<Rightarrow> Inr NaN | _ \<Rightarrow> Inl ValueError)"

definition minus_days :: "val \<Rightarrow> int \<Rightarrow> val" where
  "minus_days v n = (case v of Day d \<Rightarrow> Day (d - n) | _ \<Rightarrow> NaN)"

definition date_ge :: "val \<Rightarrow> val \<Rightarrow> bool" where
  "date_ge a b = (case (a, b) of (Day x, Day y) \<Rightarrow> y \<le> x | _ \<Rightarrow> False)"

text \<open>\<open>max()\<close> of a date column: the latest date, missing when there is none.\<close>

definition max_date :: "val list \<Rightarrow> val" where
  "max_date vs =
     (let ds = filter (\<lambda>v. v \<noteq> NaN) vs in if ds = [] then NaN else fold max ds (hd ds))"

text \<open>A sequence of steps that may fail: the first failure is the result.\<close>

fun map_err :: "('a \<Rightarrow> error + 'b) \<Rightarrow> 'a list \<Rightarrow> error + 'b list" where
  "map_err f [] = Inr []"
| "map_err f (x # xs) =
     (case f x of
        Inl e \<Rightarrow> Inl e
      | Inr y \<Rightarrow> (case map_err f xs of Inl e \<Rightarrow> Inl e | Inr ys \<Rightarrow> Inr (y # ys)))"

fun fold_err :: "('a \<Rightarrow> 's \<Rightarrow> error + 's) \<Rightarrow> 'a list \<Rightarrow> 's \<Rightarrow> error + 's" where
  "fold_err f [] s = Inr s"
| "fold_err f (x # xs) s = (case f x s of Inl e \<Rightarrow> Inl e | Inr s' \<Rightarrow> fold_err f xs s')"

text \<open>\<open>s.startswith(p)\<close> and \<open>p in s\<close> on strings.\<close>

definition starts_with :: "string \<Rightarrow> string \<Rightarrow> bool" where
  "starts_with p s = (take (length p) s = p)"


section \<open>Panel builder (data_loader.py, M5DataLoader)\<close>

text \<open>
  The three raw tables are parameters (the source reads them from disk). A calendar date is
  held as its day number; parsing the date strings is not modelled.
\<close>

record loader =
  history_days :: int
  test_horizon :: int

text \<open>Lines 82 to 97, \<open>_filter_sales_by_date\<close>.\<close>

definition filter_sales_by_date :: "loader \<Rightarrow> frame \<Rightarrow> frame \<Rightarrow> error + frame" where
  "filter_sales_by_date self sales calendar =
     (let d_cols = filter (starts_with ''d_'') (cols sales) in
      case column ''d'' calendar of
        Inl e \<Rightarrow> Inl e
      | Inr ds \<Rightarrow>
          (case column ''date'' calendar of
             Inl e \<Rightarrow> Inl e
           | Inr dts \<Rightarrow>
               let d2date = map_of (rev (zip ds dts)) in
               (case map_err (\<lambda>d. case d2date (Str d) of
                                     None \<Rightarrow> Inl KeyError
                                   | Some v \<Rightarrow> to_datetime v) d_cols of
                  Inl e \<Rightarrow> Inl e
                | Inr dates \<Rightarrow>
                    let last_date = max_date dates;
                        keep_mask = map (\<lambda>d. date_ge d
                            (minus_days last_date (history_days self + test_horizon self))) dates;
                        keep_cols = map fst (filter snd (zip d_cols keep_mask))
                    in Inr (sales\<lparr>cols := take 6 (cols sales) @ keep_cols\<rparr>))))"

text \<open>Lines 99 to 105, \<open>_melt_sales\<close>.\<close>

definition melt_sales :: "frame \<Rightarrow> error + frame" where
  "melt_sales sales =
     melt [''id'', ''item_id'', ''dept_id'', ''cat_id'', ''store_id'', ''state_id'']
       ''d'' ''sales'' sales"

text \<open>
  Lines 107 to 113, \<open>_create_snap_feature\<close>: the column \<open>snap\<close> is set to 0 and then to 1
  on the rows of a state whose own flag is 1.
\<close>

definition create_snap_feature :: "frame \<Rightarrow> error + frame" where
  "create_snap_feature df =
     (let df0 = set_col ''snap'' (map (\<lambda>r. Num 0) (rws df)) df;
          mark = (\<lambda>st flag d.
                    if \<not> set [''state_id'', flag] \<subseteq> set (cols d) then Inl KeyError
                    else Inr (d\<lparr>rws := map (\<lambda>r. if cell_eq (r ''state_id'') (Str st)
                                                     \<and> cell_eq (r flag) (Num 1)
                                                  then r(''snap'' := Num 1) else r) (rws d)\<rparr>))
      in case mark ''CA'' ''snap_CA'' df0 of
           Inl e \<Rightarrow> Inl e
         | Inr df1 \<Rightarrow>
             (case mark ''TX'' ''snap_TX'' df1 of
                Inl e \<Rightarrow> Inl e
              | Inr df2 \<Rightarrow> mark ''WI'' ''snap_WI'' df2))"

text \<open>
  Lines 115 to 123, \<open>_apply_temporal_filter\<close>: the bounds are computed from the latest date
  of the frame itself, and both comparisons are inclusive.
\<close>

definition apply_temporal_filter :: "loader \<Rightarrow> frame \<Rightarrow> error + frame" where
  "apply_temporal_filter self df =
     (case column ''date'' df of
        Inl e \<Rightarrow> Inl e
      | Inr dts \<Rightarrow>
          let max_d = max_date dts;
              cut_date = minus_days max_d (test_horizon self);
              hist_start = minus_days cut_date (history_days self)
          in Inr (df\<lparr>rws := filter (\<lambda>r. date_ge (r ''date'') hist_start
                                           \<and> date_ge max_d (r ''date'')) (rws df)\<rparr>))"

text \<open>Lines 125 to 136, \<open>split_train_test\<close>.\<close>

definition split_train_test :: "loader \<Rightarrow> frame \<Rightarrow> error + frame \<times> frame" where
  "split_train_test self df =
     (case column ''date'' df of
        Inl e \<Rightarrow> Inl e
      | Inr dts \<Rightarrow>
          let max_d = max_date dts;
              cut_date = minus_days max_d (test_horizon self)
          in Inr (df\<lparr>rws := filter (\<lambda>r. date_ge cut_date (r ''date'')) (rws df)\<rparr>,
                  df\<lparr>rws := filter (\<lambda>r. date_ge (r ''date'') cut_date
                                           \<and> r ''date'' \<noteq> cut_date) (rws df)\<rparr>))"

text \<open>Lines 18 to 61, \<open>load_data\<close>.\<close>

definition load_data :: "loader \<Rightarrow> frame \<Rightarrow> frame \<Rightarrow> frame \<Rightarrow> error + frame" where
  "load_data self calendar prices sales =
     (case filter_sales_by_date self sales calendar of
        Inl e \<Rightarrow> Inl e
      | Inr sales_small \<Rightarrow>
     (case melt_sales sales_small of
        Inl e \<Rightarrow> Inl e
      | Inr long0 \<Rightarrow>
     (case select [''d'', ''date'', ''wm_yr_wk'', ''wday'', ''month'', ''year'',
                   ''snap_CA'', ''snap_TX'', ''snap_WI''] calendar of
        Inl e \<Rightarrow> Inl e
      | Inr cal \<Rightarrow>
     (case merge_left long0 cal [''d''] of
        Inl e \<Rightarrow> Inl e
      | Inr long1 \<Rightarrow>
     (case column ''date'' long1 of
        Inl e \<Rightarrow> Inl e
      | Inr dts \<Rightarrow>
     (case map_err to_datetime dts of
        Inl e \<Rightarrow> Inl e
      | Inr dts' \<Rightarrow>
     (case merge_left (set_col ''date'' dts' long1) prices
             [''store_id'', ''item_id'', ''wm_yr_wk''] of
        Inl e \<Rightarrow> Inl e
      | Inr long2 \<Rightarrow>
     (case create_snap_feature long2 of
        Inl e \<Rightarrow> Inl e
      | Inr long3 \<Rightarrow>
     (case select [''id'', ''item_id'', ''dept_id'', ''cat_id'', ''store_id'', ''state_id'',
                   ''date'', ''sales'', ''sell_price'', ''wday'', ''month'', ''year'', ''snap'']
             long3 of
        Inl e \<Rightarrow> Inl e
      | Inr long4 \<Rightarrow> apply_temporal_filter self long4)))))))))"

section \<open>Horizon trainer (model.py, HierarchicalLGBM.train)\<close>







section \<open>Hierarchical feature engine (feature_engineering.py, FeatureEngineer)\<close>

text \<open>
  The methods of \<open>FeatureEngineer\<close> receive a data frame by reference and some of them assign
  columns to it in place. Frames therefore live in a store: a list of frames, an object
  being its position in the list. An operation that builds a new frame (\<open>sort_values\<close>,
  \<open>groupby\<close> with \<open>mean\<close>, \<open>merge\<close>) allocates a new object; \<open>df[c] = values\<close> updates the
  object in place. A method takes the store and returns the object it returns in the source
  together with the new store, or fails. (\<open>del\<close> and \<open>gc.collect\<close> free memory only and are
  not modelled.)
\<close>

record feature_engineer =
  lags :: "int list"
  rolling_windows :: "int list"

record level =
  groupby :: "string list"
  prefix :: string

type_synonym store = "frame list"

definition alloc :: "frame \<Rightarrow> store \<Rightarrow> nat \<times> store" where
  "alloc f h = (length h, h @ [f])"

definition setitem :: "nat \<Rightarrow> string \<Rightarrow> val list \<Rightarrow> store \<Rightarrow> store" where
  "setitem df c vs h = h[df := set_col c vs (h ! df)]"

text \<open>Lines 34 to 39, \<open>_encode_categorical\<close>: assigns in place and returns the same object.\<close>

definition encode_categorical :: "nat \<Rightarrow> store \<Rightarrow> nat \<times> store" where
  "encode_categorical df h =
     (df, fold (\<lambda>col h. if col \<in> set (cols (h ! df))
                         then setitem df (col @ ''_enc'')
                                (factorize (map (\<lambda>r. r col) (rws (h ! df)))) h
                         else h)
            [''state_id'', ''store_id'', ''dept_id'', ''item_id''] h)"

text \<open>Lines 41 to 44, \<open>_create_date_features\<close>: assigns in place and returns the same object.\<close>

definition create_date_features :: "nat \<Rightarrow> store \<Rightarrow> error + nat \<times> store" where
  "create_date_features df h =
     (case column ''wday'' (h ! df) of
        Inl e \<Rightarrow> Inl e
      | Inr ws \<Rightarrow>
          Inr (df, setitem df ''is_weekend''
                     (map (\<lambda>w. Num (if w = Num 1 \<or> w = Num 7 then 1 else 0)) ws) h))"

text \<open>Lines 84 to 95, \<open>_create_aggregated_sales\<close>: a new frame.\<close>

definition create_aggregated_sales :: "nat \<Rightarrow> string list \<Rightarrow> string \<Rightarrow> store \<Rightarrow> error + nat \<times> store" where
  "create_aggregated_sales df groupby_cols pfx h =
     (case groupby_mean (groupby_cols @ [''date'']) ''sales'' (h ! df) of
        Inl e \<Rightarrow> Inl e
      | Inr g \<Rightarrow>
          (case rename_col ''sales'' (''sales_'' @ pfx) g of
             Inl e \<Rightarrow> Inl e
           | Inr g' \<Rightarrow> Inr (alloc g' h)))"

text \<open>
  Lines 97 to 118, \<open>_add_lag_rolling_features\<close>. The sorted frame is a new object; the group
  keys and the values of the source column are those of the sorted frame when \<open>grp\<close> is
  built; every lag and rolling column is then assigned in place to the new object. The
  rolling mean runs over the whole shifted column, not group by group.
\<close>

definition add_lag_rolling_features ::
    "feature_engineer \<Rightarrow> nat \<Rightarrow> string list \<Rightarrow> string \<Rightarrow> string \<Rightarrow> store \<Rightarrow> error + nat \<times> store" where
  "add_lag_rolling_features self df groupby_cols value_col pfx h =
     (case sort_values (groupby_cols @ [''date'']) (h ! df) of
        Inl e \<Rightarrow> Inl e
      | Inr sorted_df \<Rightarrow>
          let (df', h1) = alloc sorted_df h in
          if groupby_cols = [] then Inl ValueError
          else
            (case column value_col sorted_df of
               Inl e \<Rightarrow> Inl e
             | Inr vs \<Rightarrow>
                 let ks = map (\<lambda>r. map r groupby_cols) (rws sorted_df);
                     h2 = fold (\<lambda>lag h. setitem df' (pfx @ ''_lag_'' @ str_int lag)
                                          (group_shift lag ks vs) h)
                               (lags self) h1
                 in (case fold_err (\<lambda>window h.
                                case rolling_mean window (group_shift 1 ks vs) of
                                  Inl e \<Rightarrow> Inl e
                                | Inr rs \<Rightarrow>
                                    Inr (setitem df' (pfx @ ''_roll_'' @ str_int window) rs h))
                            (rolling_windows self) h2 of
                       Inl e \<Rightarrow> Inl e
                     | Inr h3 \<Rightarrow> Inr (df', h3))))"

text \<open>
  Lines 46 to 82, \<open>_create_hierarchical_features\<close>: the loop over the levels, \<open>df\<close> being
  rebound to the object each level returns.
\<close>

fun create_hierarchical_features ::
    "feature_engineer \<Rightarrow> nat \<Rightarrow> level list \<Rightarrow> store \<Rightarrow> error + nat \<times> store" where
  "create_hierarchical_features self df [] h = Inr (df, h)"
| "create_hierarchical_features self df (level # levels) h =
     (let groupby_cols = groupby level; pfx = prefix level in
      if groupby_cols = [''id''] then
        (case add_lag_rolling_features self df groupby_cols ''sales'' pfx h of
           Inl e \<Rightarrow> Inl e
         | Inr (df', h') \<Rightarrow> create_hierarchical_features self df' levels h')
      else
        (case create_aggregated_sales df groupby_cols pfx h of
           Inl e \<Rightarrow> Inl e
         | Inr (agg_df, h1) \<Rightarrow>
        (case add_lag_rolling_features self agg_df groupby_cols (''sales_'' @ pfx) pfx h1 of
           Inl e \<Rightarrow> Inl e
         | Inr (agg_df', h2) \<Rightarrow>
             let keep_cols = groupby_cols @ [''date'']
                   @ filter (starts_with (pfx @ ''_'')) (cols (h2 ! agg_df')) in
        (case select keep_cols (h2 ! agg_df') of
           Inl e \<Rightarrow> Inl e
         | Inr kept \<Rightarrow>
        (case merge_left (h2 ! df) kept (groupby_cols @ [''date'']) of
           Inl e \<Rightarrow> Inl e
         | Inr merged \<Rightarrow>
             let (df', h3) = alloc merged h2
             in create_hierarchical_features self df' levels h3)))))"

text \<open>Lines 15 to 32, \<open>create_all_features\<close>.\<close>

definition create_all_features ::
    "feature_engineer \<Rightarrow> nat \<Rightarrow> level list \<Rightarrow> store \<Rightarrow> error + nat \<times> store" where
  "create_all_features self df hierarchical_levels h =
     (if ''sales'' \<notin> set (cols (h ! df)) then Inl AssertionError
      else
        let (df1, h1) = encode_categorical df h in
        (case create_date_features df1 h1 of
           Inl e \<Rightarrow> Inl e
         | Inr (df2, h2) \<Rightarrow> create_hierarchical_features self df2 hierarchical_levels h2))"

text \<open>Lines 120 to 136, \<open>get_feature_names\<close>.\<close>

definition get_feature_names :: "feature_engineer \<Rightarrow> level list \<Rightarrow> string list" where
  "get_feature_names self hierarchical_levels =
     (let base_feats = [''wday'', ''month'', ''year'', ''is_weekend'', ''snap'', ''sell_price'',
                        ''state_id_enc'', ''store_id_enc'', ''dept_id_enc'', ''item_id_enc''];
          lag_feats = concat (map (\<lambda>level. map (\<lambda>l. prefix level @ ''_lag_'' @ str_int l)
                                               (lags self)) hierarchical_levels);
          roll_feats = concat (map (\<lambda>level. map (\<lambda>w. prefix level @ ''_roll_'' @ str_int w)
                                                (rolling_windows self)) hierarchical_levels)
      in base_feats @ lag_feats @ roll_feats)"

text \<open>The columns of a panel produced by \<open>load_data\<close> (the SeriesRecord of the specification).\<close>

definition panel_cols :: "string list" where
  "panel_cols = [''id'', ''item_id'', ''dept_id'', ''cat_id'', ''store_id'', ''state_id'',
                 ''date'', ''sales'', ''sell_price'', ''wday'', ''month'', ''year'', ''snap'']"

definition categorical_cols :: "string list" where
  "categorical_cols = [''id'', ''item_id'', ''dept_id'', ''cat_id'', ''store_id'', ''state_id'']"

section \<open>Example inputs\<close>

definition ex_booster :: booster where
  "ex_booster xs = (case xs of [Num x] \<Rightarrow> x - 5 | _ \<Rightarrow> - 1)"

definition ex_test_df :: frame where
  "ex_test_df = \<lparr>cols = [''id'', ''date'', ''f''],
     rws = [(\<lambda>_. NaN)(''id'' := Str ''a'', ''date'' := Day 1, ''f'' := Num 7),
            (\<lambda>_. NaN)(''id'' := Str ''b'', ''date'' := Day 1, ''f'' := Num 2),
            (\<lambda>_. NaN)(''id'' := Str ''a'', ''date'' := Day 2, ''f'' := NaN),
            (\<lambda>_. NaN)(''id'' := Str ''a'', ''date'' := Day 3, ''f'' := Num 9)]\<rparr>"

definition ex_lgbm :: "int \<Rightarrow> lgbm" where
  "ex_lgbm H = \<lparr>params = [], num_boost_round = 1, num_models = H,
                 models = (\<lambda>h. if 1 \<le> h \<and> h \<le> H then Some ex_booster else None)\<rparr>"

definition ex_forecast :: fmatrix where
  "ex_forecast = \<lparr>f_index = [Str ''b'', Str ''a'', Str ''c''], f_columns = [''F1'', ''F2''],
     f_values = [[Some 0, Some 0], [Some 2, Some 0], [Some 0, Some 0]]\<rparr>"

definition ex_partial_forecast :: fmatrix where
  "ex_partial_forecast = \<lparr>f_index = [Str ''a'', Str ''b''], f_columns = [''F1'', ''F2''],
     f_values = [[Some 1, Some 2], [Some 3, None]]\<rparr>"

definition ex_score :: "real list list \<Rightarrow> real" where
  "ex_score A = sum_list (map sum_list A) + real (length A)"




definition ex_calendar :: frame where
  "ex_calendar = \<lparr>cols = [''date'', ''d'', ''wm_yr_wk'', ''wday'', ''month'', ''year'',
                          ''snap_CA'', ''snap_TX'', ''snap_WI''],
     rws = map (\<lambda>i. (\<lambda>n. Num 0)(''date'' := Day (int i), ''d'' := Str (''d_'' @ str_nat i)))
               [1, 2, 3, 4, 5]\<rparr>"

definition ex_prices :: frame where
  "ex_prices = \<lparr>cols = [''store_id'', ''item_id'', ''wm_yr_wk'', ''sell_price''],
     rws = [(\<lambda>n. NaN)(''store_id'' := Str ''S'', ''item_id'' := Str ''X'',
                        ''wm_yr_wk'' := Num 0, ''sell_price'' := Num 2)]\<rparr>"

definition ex_sales :: frame where
  "ex_sales = \<lparr>cols = [''id'', ''item_id'', ''dept_id'', ''cat_id'', ''store_id'', ''state_id'',
                       ''d_1'', ''d_2'', ''d_3'', ''d_4'', ''d_5''],
     rws = [(\<lambda>n. Str ''X'')(''store_id'' := Str ''S'', ''state_id'' := Str ''CA'',
               ''d_1'' := Num 10, ''d_2'' := Num 20, ''d_3'' := Num 30, ''d_4'' := Num 40,
               ''d_5'' := Num 50)]\<rparr>"

section \<open>Properties of the horizon predictor\<close>

lemma predict_days_nonneg:
  "predict_days self test_df fn hds = Inr outs \<Longrightarrow> out \<in> set outs \<Longrightarrow> (i, h, v) \<in> set out \<Longrightarrow> 0 \<le> v"
proof (induction hds arbitrary: outs)
  case Nil
  then show ?case by simp
next
  case (Cons p hds)
  obtain h' day where p: "p = (h', day)" by (cases p)
  from Cons.prems(1) show ?case
    using Cons.IH Cons.prems(2,3) unfolding p
    by (auto simp: Let_def split: sum.splits option.splits if_splits dest!: set_zip_rightD)
qed




lemma find_cell:
  "Some x = map_option (\<lambda>(i, h, v). v) (find P ts) \<Longrightarrow> \<exists>i h. (i, h, x) \<in> set ts"
proof (cases "find P ts")
  case None
  assume "Some x = map_option (\<lambda>(i, h, v). v) (find P ts)"
  with None show ?thesis by simp
next
  case (Some t)
  assume "Some x = map_option (\<lambda>(i, h, v). v) (find P ts)"
  with Some have x: "x = (\<lambda>(i, h, v). v) t" by simp
  from Some have "t \<in> set ts" by (auto simp: find_Some_iff)
  with x show ?thesis by (cases t) auto
qed

lemma pivot_cells:
  assumes "pivot ts = Inr (idx, hs, vals)" "row \<in> set vals" "Some x \<in> set row"
  shows "\<exists>i h. (i, h, x) \<in> set ts"
proof -
  from assms(1) have vals: "vals = map (\<lambda>i. map (\<lambda>h. map_option (\<lambda>(i, h, v). v)
      (find (\<lambda>(i', h', v). i' = i \<and> h' = h) ts)) hs) idx"
    by (auto simp: pivot_def Let_def split: if_splits)
  from assms(2,3) show ?thesis
    unfolding vals by (auto dest!: find_cell)
qed

lemma reindex_cells:
  assumes "reindex ids idx n vals = Inr vals'" "row \<in> set vals'" "Some x \<in> set row"
  shows "\<exists>row0 \<in> set vals. Some x \<in> set row0"
proof -
  from assms obtain i where "row = (case map_of (zip idx vals) i of None \<Rightarrow> replicate n None | Some r \<Rightarrow> r)"
    by (auto simp: reindex_def split: if_splits)
  with assms(3) show ?thesis
    by (auto split: option.splits dest!: map_of_SomeD set_zip_rightD)
qed

text \<open>
  Claim C8. Every value of the forecast matrix returned by \<open>predict\<close> is non-negative,
  whatever raw scores the boosters produce: a cell is either a score clipped below at 0 or
  a missing cell filled with 0.
\<close>

theorem predict_nonneg:
  assumes "predict self ids test_df fn = Inr fm"
  shows "\<forall>row \<in> set (f_values fm). \<forall>c \<in> set row. \<exists>x. c = Some x \<and> 0 \<le> x"
proof (intro ballI)
  fix row c assume row: "row \<in> set (f_values fm)" and c: "c \<in> set row"
  from assms obtain dates pred_list idx hs vals vals' where
    pd: "predict_days self test_df fn (horizon_days (num_models self) (sort (remdups dates))) = Inr pred_list"
    and pv: "pivot (concat pred_list) = Inr (idx, hs, vals)"
    and ri: "reindex ids idx (length hs) vals = Inr vals'"
    and fm: "f_values fm = map (map fill0) vals'"
    by (auto simp: predict_def Let_def split: sum.splits if_splits prod.splits)
  from row c fm obtain row' c' where r': "row' \<in> set vals'" "c' \<in> set row'" "c = fill0 c'"
    by auto
  show "\<exists>x. c = Some x \<and> 0 \<le> x"
  proof (cases c')
    case None
    then show ?thesis using r' by (simp add: fill0_def)
  next
    case (Some x)
    with r' reindex_cells[OF ri] obtain row0 where "row0 \<in> set vals" "Some x \<in> set row0" by blast
    with pivot_cells[OF pv] obtain i h where "(i, h, x) \<in> set (concat pred_list)" by blast
    then obtain out where "out \<in> set pred_list" "(i, h, x) \<in> set out" by auto
    with predict_days_nonneg[OF pd] have "0 \<le> x" by blast
    then show ?thesis using Some r' by (simp add: fill0_def)
  qed
qed

theorem predict_nonneg_witness:
  "predict (ex_lgbm 2) [Str ''b'', Str ''a'', Str ''c''] ex_test_df [''f''] = Inr ex_forecast
   \<and> ex_booster [Num 2] < 0
   \<and> (\<exists>x. hd (hd (f_values ex_forecast)) = Some x \<and> 0 \<le> x)"
proof -
  have r: "predict (ex_lgbm 2) [Str ''b'', Str ''a'', Str ''c''] ex_test_df [''f''] = Inr ex_forecast"
    by code_simp
  have m: "hd (f_values ex_forecast) \<in> set (f_values ex_forecast)"
    "hd (hd (f_values ex_forecast)) \<in> set (hd (f_values ex_forecast))"
    by (simp_all add: ex_forecast_def)
  from predict_nonneg[OF r] m
  have "\<exists>x. hd (hd (f_values ex_forecast)) = Some x \<and> 0 \<le> x" by blast
  moreover have "ex_booster [Num 2] < 0" by (simp add: ex_booster_def)
  ultimately show ?thesis using r by blast
qed






section \<open>Properties of the evaluator\<close>

text \<open>
  Claim C7. \<open>evaluate\<close> scores an array with one row per canonical series id, in the
  canonical order: the zero-filled forecast row of the id where the forecast has it, and a
  row of zeros for every horizon where the id is absent from the forecast. An absent series is
  therefore scored as a zero forecast and is part of the array handed to the score function.
\<close>

theorem evaluate_zero_fill:
  assumes "distinct (f_index fm)" "length (f_values fm) = length (f_index fm)"
  shows "\<exists>A. evaluate wrmsse ev fm = Inr (wrmsse A)
           \<and> length A = length (sales_ids ev)
           \<and> (\<forall>j < length (sales_ids ev).
                (sales_ids ev ! j \<notin> set (f_index fm) \<longrightarrow>
                   A ! j = replicate (length (f_columns fm)) 0)
              \<and> (\<forall>k < length (f_index fm). sales_ids ev ! j = f_index fm ! k \<longrightarrow>
                   A ! j = map (\<lambda>c. case c of None \<Rightarrow> 0 | Some x \<Rightarrow> x) (f_values fm ! k)))"
proof -
  let ?look = "\<lambda>i. case map_of (zip (f_index fm) (f_values fm)) i of
                      None \<Rightarrow> replicate (length (f_columns fm)) None | Some r \<Rightarrow> r"
  let ?A = "map (map (\<lambda>c. the (fill0 c))) (map ?look (sales_ids ev))"
  have fill: "(\<lambda>c. the (fill0 c)) = (\<lambda>c. case c of None \<Rightarrow> 0 | Some x \<Rightarrow> x)"
    by (auto simp: fill0_def fun_eq_iff split: option.splits)
  have ev: "evaluate wrmsse ev fm = Inr (wrmsse ?A)"
    using assms(1) by (simp add: evaluate_def reindex_def)
  have absent: "?A ! j = replicate (length (f_columns fm)) 0"
    if "j < length (sales_ids ev)" "sales_ids ev ! j \<notin> set (f_index fm)" for j
  proof -
    have "map_of (zip (f_index fm) (f_values fm)) (sales_ids ev ! j) = None"
      using that(2) assms(2) by (simp add: map_of_zip_is_None)
    then show ?thesis using that(1) by (simp add: fill0_def)
  qed
  have present: "?A ! j = map (\<lambda>c. case c of None \<Rightarrow> 0 | Some x \<Rightarrow> x) (f_values fm ! k)"
    if "j < length (sales_ids ev)" "k < length (f_index fm)" "sales_ids ev ! j = f_index fm ! k" for j k
  proof -
    have "map_of (zip (f_index fm) (f_values fm)) (f_index fm ! k) = Some (f_values fm ! k)"
      using that(2) assms by (simp add: map_of_zip_nth)
    then show ?thesis using that(1,3) by (simp add: fill)
  qed
  from ev absent present show ?thesis
    by (intro exI[of _ ?A]) simp
qed

theorem evaluate_zero_fill_witness:
  "evaluate ex_score \<lparr>sales_ids = [Str ''b'', Str ''c'', Str ''a'']\<rparr> ex_partial_forecast
     = Inr (ex_score [[3, 0], [0, 0], [1, 2]])"
proof -
  let ?ev = "\<lparr>sales_ids = [Str ''b'', Str ''c'', Str ''a'']\<rparr>"
  have d: "distinct (f_index ex_partial_forecast)"
    and l: "length (f_values ex_partial_forecast) = length (f_index ex_partial_forecast)"
    by (simp_all add: ex_partial_forecast_def)
  from evaluate_zero_fill[OF d l, of ex_score ?ev]
  obtain A where e: "evaluate ex_score ?ev ex_partial_forecast = Inr (ex_score A)"
    and n: "length A = length (sales_ids ?ev)"
    and r: "\<And>j. j < length (sales_ids ?ev) \<Longrightarrow>
                (sales_ids ?ev ! j \<notin> set (f_index ex_partial_forecast) \<longrightarrow>
                   A ! j = replicate (length (f_columns ex_partial_forecast)) 0)
              \<and> (\<forall>k < length (f_index ex_partial_forecast).
                   sales_ids ?ev ! j = f_index ex_partial_forecast ! k \<longrightarrow>
                   A ! j = map (\<lambda>c. case c of None \<Rightarrow> 0 | Some x \<Rightarrow> x)
                             (f_values ex_partial_forecast ! k))"
    by blast
  have a0: "A ! 0 = [3, 0]"
    using r[of 0, THEN conjunct2, rule_format, of 1] by (simp add: ex_partial_forecast_def)
  have a1: "A ! 1 = [0, 0]"
    using r[of 1, THEN conjunct1] by (simp add: ex_partial_forecast_def)
  have a2: "A ! 2 = [1, 2]"
    using r[of 2, THEN conjunct2, rule_format, of 0] by (simp add: ex_partial_forecast_def)
  have "length A = 3" using n by simp
  then obtain x y z where xyz: "A = [x, y, z]"
    by (auto simp: length_Suc_conv numeral_3_eq_3)
  then have "A = [A ! 0, A ! 1, A ! 2]" by simp
  then have "A = [[3, 0], [0, 0], [1, 2]]"
    unfolding a0 a1 a2 .
  with e show ?thesis by simp
qed

section \<open>Properties of the group shift\<close>





lemma group_shift_length [simp]: "length (group_shift k ks vs) = length ks"
  by (simp add: group_shift_def)




section \<open>Properties of the horizon trainer\<close>













section \<open>Properties of the panel builder\<close>

lemma date_ge_Day: "date_ge a (Day y) = (\<exists>x. a = Day x \<and> y \<le> x)"
  by (cases a) (auto simp: date_ge_def)

lemma date_ge_Day2: "date_ge (Day x) b = (\<exists>y. b = Day y \<and> y \<le> x)"
  by (cases b) (auto simp: date_ge_def)

lemma apply_temporal_filter_window:
  assumes "apply_temporal_filter self df = Inr out"
    and "max_date (map (\<lambda>r. r ''date'') (rws df)) = Day m"
  shows "cols out = cols df \<and> rws out = filter (\<lambda>r. \<exists>d. r ''date'' = Day d
            \<and> m - (test_horizon self + history_days self) \<le> d \<and> d \<le> m) (rws df)"
proof -
  have "(date_ge (r ''date'') (minus_days (minus_days (Day m) (test_horizon self)) (history_days self))
         \<and> date_ge (Day m) (r ''date''))
      = (\<exists>d. r ''date'' = Day d \<and> m - (test_horizon self + history_days self) \<le> d \<and> d \<le> m)" for r
    by (auto simp: minus_days_def date_ge_Day date_ge_Day2)
  then show ?thesis
    using assms by (auto simp: apply_temporal_filter_def column_def Let_def split: if_splits)
qed

text \<open>
  Claim C9 at a concrete input: with \<open>history_days = 2\<close> and \<open>test_horizon = 1\<close> on a
  calendar of five days, the panel returned by \<open>load_data\<close> has the four most recent days,
  one more than \<open>history_days + test_horizon\<close>.
\<close>

theorem load_data_keeps_one_more_day:
  "map_sum id (\<lambda>df. map (\<lambda>r. (r ''date'', r ''sales'')) (rws df))
     (load_data \<lparr>history_days = 2, test_horizon = 1\<rparr> ex_calendar ex_prices ex_sales)
   = Inr [(Day 2, Num 20), (Day 3, Num 30), (Day 4, Num 40), (Day 5, Num 50)]"
  by code_simp

end
